theory Spec2Isabelle
  imports Complex_Main
begin

section \<open>Data model (types.ts)\<close>

text \<open>
  The TypeScript declarations are embedded as they stand. An optional field
  \<^verbatim>\<open>f?: T\<close> is a field of type \<open>T option\<close>, \<open>None\<close> being the missing key.
  A \<^verbatim>\<open>number\<close> is modelled by a real: every finite double is one, and the
  engine only compares numbers with constants. The non-finite doubles are
  outside the model. Strings are byte lists; the two characters of the source
  outside ASCII (the arrow and the degree sign) are written as their UTF-8 bytes.
\<close>

datatype TriageLevel = CRITICAL | URGENT | STABLE | UNKNOWN

datatype Consciousness = alert | confused | drowsy | unconscious

datatype DoctorAssessment = low | moderate | critical

record Vitals =
  age :: "real option"
  systolic_bp :: "real option"
  heart_rate :: "real option"
  spo2 :: "real option"
  temperature :: "real option"
  consciousness :: "Consciousness option"
  doctor_assessment :: "DoctorAssessment option"

record ABCDEStatus =
  A_Airway :: string
  B_Breathing :: string
  C_Circulation :: string
  D_Disability :: string
  E_Exposure :: string

record TriageResult =
  priority :: TriageLevel
  score :: nat
  reasons :: "string list"
  red_flags_detected :: bool
  abcde_status :: ABCDEStatus
  narrative_summary :: string
  decision_pathway :: string

text \<open>The string value of each enum member, as a template literal prints it.\<close>

fun level_text :: "TriageLevel \<Rightarrow> string" where
  "level_text CRITICAL = ''CRITICAL''"
| "level_text URGENT = ''MODERATE''"
| "level_text STABLE = ''STABLE''"
| "level_text UNKNOWN = ''UNKNOWN''"

section \<open>JavaScript helpers\<close>

text \<open>
  \<^verbatim>\<open>vitals.f && cond\<close> on an optional number: the left operand is falsy when
  the key is missing and when the number is zero, and only otherwise is the
  condition looked at.
\<close>

fun truthy_and :: "real option \<Rightarrow> (real \<Rightarrow> bool) \<Rightarrow> bool" where
  "truthy_and None cond = False"
| "truthy_and (Some x) cond = (x \<noteq> 0 \<and> cond x)"

text \<open>\<^verbatim>\<open>Array.prototype.join\<close>.\<close>

fun join :: "string \<Rightarrow> string list \<Rightarrow> string" where
  "join sep [] = []"
| "join sep [x] = x"
| "join sep (x # y # ys) = x @ sep @ join sep (y # ys)"

text \<open>A natural number printed in decimal, as \<^verbatim>\<open>${score}\<close> prints the score.\<close>

definition digit_char :: "nat \<Rightarrow> char" where
  "digit_char d = ''0123456789'' ! (d mod 10)"

fun string_of_nat :: "nat \<Rightarrow> string" where
  "string_of_nat n =
     (if n < 10 then [digit_char n] else string_of_nat (n div 10) @ [digit_char (n mod 10)])"

definition arrow :: string where
  "arrow = [CHR 0xE2, CHR 0x86, CHR 0x92]"

definition degree_sign :: string where
  "degree_sign = [CHR 0xC2, CHR 0xB0]"

section \<open>The decision engine (services/triageEngine.ts)\<close>

definition checkRedFlags :: "Vitals \<Rightarrow> string list" where
  "checkRedFlags vitals =
     (if truthy_and (spo2 vitals) (\<lambda>x. x < 90)
        then [''Oxygen saturation critically low (<90%)''] else []) @
     (if consciousness vitals = Some unconscious
        then [''Patient is unconscious''] else []) @
     (if truthy_and (systolic_bp vitals) (\<lambda>x. x < 90)
        then [''Blood pressure critically low (<90 mmHg)''] else []) @
     (if doctor_assessment vitals = Some critical
        then [''Clinical provider indicates critical condition''] else [])"

definition computeABCDE :: "Vitals \<Rightarrow> ABCDEStatus" where
  "computeABCDE vitals =
     \<lparr> A_Airway = (if consciousness vitals = Some unconscious then ''AT RISK'' else ''OPEN''),
       B_Breathing =
         (case spo2 vitals of
            None \<Rightarrow> ''UNKNOWN''
          | Some x \<Rightarrow>
              if x = 0 then ''UNKNOWN''
              else if x < 90 then ''CRITICAL''
              else if x < 92 then ''LOW-NORMAL''
              else ''ADEQUATE''),
       C_Circulation =
         (case systolic_bp vitals of
            None \<Rightarrow> ''UNKNOWN''
          | Some x \<Rightarrow>
              if x = 0 then ''UNKNOWN''
              else if x < 90 then ''SHOCK''
              else if x < 100 then ''LOW-NORMAL''
              else if x > 180 then ''HYPERTENSIVE''
              else ''ADEQUATE''),
       D_Disability =
         (if consciousness vitals = Some unconscious then ''UNCONSCIOUS''
          else if consciousness vitals = Some drowsy then ''DROWSY''
          else ''ALERT''),
       E_Exposure =
         (case temperature vitals of
            None \<Rightarrow> ''UNKNOWN''
          | Some x \<Rightarrow>
              if x = 0 then ''UNKNOWN''
              else if x > 40 \<or> x < 35 then ''CRITICAL''
              else if x > 38 then ''FEVER''
              else ''NORMAL'') \<rparr>"

text \<open>
  The scoring block mutates \<^verbatim>\<open>score\<close> and \<^verbatim>\<open>reasons\<close>; here the pair is
  passed from rule to rule. \<open>fire\<close> is the body of one rule
  (\<^verbatim>\<open>score += w; reasons.push(r)\<close>) and \<open>rule\<close> its guarded form.
\<close>

type_synonym tally = "nat \<times> string list"

definition fire :: "nat \<Rightarrow> string \<Rightarrow> tally \<Rightarrow> tally" where
  "fire w r t = (fst t + w, snd t @ [r])"

definition rule :: "bool \<Rightarrow> nat \<Rightarrow> string \<Rightarrow> tally \<Rightarrow> tally" where
  "rule c w r t = (if c then fire w r t else t)"

definition breathing_rule :: "Vitals \<Rightarrow> tally \<Rightarrow> tally" where
  "breathing_rule vitals =
     rule (truthy_and (spo2 vitals) (\<lambda>x. x \<ge> 90 \<and> x < 92)) 2
       ''Oxygen saturation in low-normal range (90-92%)''"

definition heart_rule :: "Vitals \<Rightarrow> tally \<Rightarrow> tally" where
  "heart_rule vitals =
     rule (truthy_and (heart_rate vitals) (\<lambda>x. x < 50 \<or> x > 120)) 2
       ''Heart rate abnormal: below 50 or above 120 bpm''"

definition pressure_rule :: "Vitals \<Rightarrow> tally \<Rightarrow> tally" where
  "pressure_rule vitals t =
     (case systolic_bp vitals of
        None \<Rightarrow> t
      | Some x \<Rightarrow>
          if x = 0 then t
          else if x \<ge> 80 \<and> x < 90
            then fire 2 ''Blood pressure in low-normal range (80-90 mmHg)'' t
          else if x > 180
            then fire 2 ''Blood pressure elevated above 180 mmHg'' t
          else t)"

definition disability_rule :: "Vitals \<Rightarrow> tally \<Rightarrow> tally" where
  "disability_rule vitals =
     rule (consciousness vitals = Some drowsy) 3 ''Patient is drowsy''"

definition exposure_rule :: "Vitals \<Rightarrow> tally \<Rightarrow> tally" where
  "exposure_rule vitals =
     rule (truthy_and (temperature vitals) (\<lambda>x. x > 38)) 1
       (''Body temperature elevated above 38'' @ degree_sign @ ''C'')"

definition age_rule :: "Vitals \<Rightarrow> tally \<Rightarrow> tally" where
  "age_rule vitals =
     rule (truthy_and (age vitals) (\<lambda>x. x > 60)) 1 ''Patient age over 60 years''"

definition provider_rule :: "Vitals \<Rightarrow> tally \<Rightarrow> tally" where
  "provider_rule vitals =
     rule (doctor_assessment vitals = Some moderate) 2
       ''Provider assessment indicates moderate risk''"

definition tally_of :: "Vitals \<Rightarrow> tally" where
  "tally_of vitals =
     provider_rule vitals (age_rule vitals (exposure_rule vitals (disability_rule vitals
       (pressure_rule vitals (heart_rule vitals (breathing_rule vitals (0, [])))))))"

definition priority_of :: "nat \<Rightarrow> TriageLevel" where
  "priority_of s = (if s \<ge> 7 then CRITICAL else if s \<ge> 4 then URGENT else STABLE)"

definition calculate :: "Vitals \<Rightarrow> TriageResult" where
  "calculate vitals =
     (case checkRedFlags vitals of
        flag # rest \<Rightarrow>
          \<lparr> priority = CRITICAL,
            score = 10,
            reasons = flag # rest,
            red_flags_detected = True,
            abcde_status = computeABCDE vitals,
            narrative_summary =
              ''CRITICAL: '' @ flag @ ''. Immediate emergency response required.'',
            decision_pathway =
              ''RED FLAG DETECTED '' @ arrow @ '' CRITICAL (scored 10/10)'' \<rparr>
      | [] \<Rightarrow>
          (let t = tally_of vitals; p = priority_of (fst t) in
           \<lparr> priority = p,
             score = fst t,
             reasons = snd t,
             red_flags_detected = False,
             abcde_status = computeABCDE vitals,
             narrative_summary =
               (if length (snd t) > 0
                  then level_text p @ '': '' @ join '', '' (snd t) @ ''.''
                  else level_text p @ '': All vital signs within normal limits.''),
             decision_pathway =
               ''NO RED FLAGS '' @ arrow @ '' SCORE '' @ string_of_nat (fst t) @ ''/10 '' @
               arrow @ '' '' @ level_text p @ '' PRIORITY'' \<rparr>))"

section \<open>The local parser (services/geminiService.ts, localExtract)\<close>

text \<open>
  The input is read as a list of 8-bit characters. The model is exact for ASCII
  text. A character beyond ASCII counts as a caseless character that is neither
  a digit nor white space, which is what JavaScript does with it except for the
  Unicode spaces under \<^verbatim>\<open>\s\<close> and the two letters whose lower case is ASCII.
\<close>

definition is_digit :: "char \<Rightarrow> bool" where
  "is_digit c = (c \<in> set ''0123456789'')"

definition is_space :: "char \<Rightarrow> bool" where
  "is_space c = (c \<in> set [CHR '' '', CHR 0x09, CHR 0x0A, CHR 0x0B, CHR 0x0C, CHR 0x0D])"

definition lower_char :: "char \<Rightarrow> char" where
  "lower_char c =
     (case map_of (zip ''ABCDEFGHIJKLMNOPQRSTUVWXYZ'' ''abcdefghijklmnopqrstuvwxyz'') c of
        Some l \<Rightarrow> l
      | None \<Rightarrow> c)"

definition toLowerCase :: "string \<Rightarrow> string" where
  "toLowerCase s = map lower_char s"

definition starts_with :: "string \<Rightarrow> string \<Rightarrow> bool" where
  "starts_with p s = (take (length p) s = p)"

text \<open>A literal of a pattern with the \<^verbatim>\<open>i\<close> flag, at the start of \<open>s\<close>.\<close>

definition starts_with_ci :: "string \<Rightarrow> string \<Rightarrow> bool" where
  "starts_with_ci p s = (toLowerCase (take (length p) s) = toLowerCase p)"

text \<open>\<^verbatim>\<open>String.prototype.includes\<close>.\<close>

fun includes_str :: "string \<Rightarrow> string \<Rightarrow> bool" where
  "includes_str [] p = (p = [])"
| "includes_str (c # cs) p = (starts_with p (c # cs) \<or> includes_str cs p)"

text \<open>
  \<^verbatim>\<open>(\d{2,3})\<close> at the start of \<open>s\<close>, greedy: two digits are needed, a third
  one is taken when it is there.
\<close>

definition digits_2_3 :: "string \<Rightarrow> string option" where
  "digits_2_3 s =
     (let ds = takeWhile is_digit s in if length ds \<ge> 2 then Some (take 3 ds) else None)"

text \<open>
  \<^verbatim>\<open>\D*(\d{2,3})\<close> at the start of \<open>s\<close>. The greedy \<^verbatim>\<open>\D*\<close> stops at the first
  digit or at the end, and giving characters back cannot help: the character
  after a shorter run is not a digit.
\<close>

definition after_keyword :: "string \<Rightarrow> string option" where
  "after_keyword s = digits_2_3 (dropWhile (\<lambda>c. \<not> is_digit c) s)"

text \<open>
  \<^verbatim>\<open>/(?:k1|k2|...)\D*(\d{2,3})/i\<close>: the alternatives are tried in order at one
  position (\<open>keyword_at\<close>), the positions from left to right
  (\<open>match_keyword\<close>). The result is the first capture group of the first match.
\<close>

fun keyword_at :: "string list \<Rightarrow> string \<Rightarrow> string option" where
  "keyword_at [] s = None"
| "keyword_at (k # ks) s =
     (case (if starts_with_ci k s then after_keyword (drop (length k) s) else None) of
        Some d \<Rightarrow> Some d
      | None \<Rightarrow> keyword_at ks s)"

fun match_keyword :: "string list \<Rightarrow> string \<Rightarrow> string option" where
  "match_keyword ks [] = None"
| "match_keyword ks (c # cs) =
     (case keyword_at ks (c # cs) of
        Some d \<Rightarrow> Some d
      | None \<Rightarrow> match_keyword ks cs)"

text \<open>
  \<^verbatim>\<open>/(\d{2,3})TAIL/\<close>: at one position three digits are tried before two
  (\<open>number_at\<close>), the positions from left to right (\<open>match_number\<close>). The
  three tails of the source are \<^verbatim>\<open>\s*%\<close>, \<^verbatim>\<open>\/(\d{2,3})\<close> and \<^verbatim>\<open>\s*bpm\<close>
  (the last with the \<^verbatim>\<open>i\<close> flag).
\<close>

definition number_at :: "(string \<Rightarrow> bool) \<Rightarrow> string \<Rightarrow> string option" where
  "number_at tail s =
     (let n = length (takeWhile is_digit s) in
      if n \<ge> 3 \<and> tail (drop 3 s) then Some (take 3 s)
      else if n \<ge> 2 \<and> tail (drop 2 s) then Some (take 2 s)
      else None)"

fun match_number :: "(string \<Rightarrow> bool) \<Rightarrow> string \<Rightarrow> string option" where
  "match_number tail [] = None"
| "match_number tail (c # cs) =
     (case number_at tail (c # cs) of
        Some d \<Rightarrow> Some d
      | None \<Rightarrow> match_number tail cs)"

definition percent_tail :: "string \<Rightarrow> bool" where
  "percent_tail s = starts_with ''%'' (dropWhile is_space s)"

definition slash_tail :: "string \<Rightarrow> bool" where
  "slash_tail s = (starts_with ''/'' s \<and> digits_2_3 (drop 1 s) \<noteq> None)"

definition bpm_tail :: "string \<Rightarrow> bool" where
  "bpm_tail s = starts_with_ci ''bpm'' (dropWhile is_space s)"

text \<open>\<^verbatim>\<open>a || b\<close> on two match results: the second is used when the first is null.\<close>

definition or_else :: "'a option \<Rightarrow> 'a option \<Rightarrow> 'a option" where
  "or_else a b = (case a of Some x \<Rightarrow> Some x | None \<Rightarrow> b)"

text \<open>\<^verbatim>\<open>parseInt\<close> on a string of decimal digits.\<close>

definition digit_value :: "char \<Rightarrow> nat" where
  "digit_value c = length (takeWhile (\<lambda>d. d \<noteq> c) ''0123456789'')"

definition parseInt :: "string \<Rightarrow> nat" where
  "parseInt ds = foldl (\<lambda>n c. 10 * n + digit_value c) 0 ds"

definition number_of_match :: "string option \<Rightarrow> real option" where
  "number_of_match m = map_option (\<lambda>ds. real (parseInt ds)) m"

definition localExtract :: "string \<Rightarrow> Vitals" where
  "localExtract input =
     (let lower = toLowerCase input;
          spo2Match = or_else (match_keyword [''spo2'', ''oxygen'', ''o2''] input)
                              (match_number percent_tail input);
          bpMatch = or_else (match_number slash_tail input)
                            (match_keyword [''bp'', ''pressur''] input);
          hrMatch = or_else (match_keyword [''hr'', ''heart'', ''pulse''] input)
                            (match_number bpm_tail input)
      in \<lparr> age = None,
           systolic_bp = number_of_match bpMatch,
           heart_rate = number_of_match hrMatch,
           spo2 = number_of_match spo2Match,
           temperature = None,
           consciousness =
             Some (if includes_str lower ''unconscious'' \<or> includes_str lower ''not waking'' \<or>
                      includes_str lower ''passed out'' then unconscious
                   else if includes_str lower ''confused'' \<or> includes_str lower ''disoriented''
                     then confused
                   else if includes_str lower ''sleepy'' \<or> includes_str lower ''drowsy'' then drowsy
                   else alert),
           doctor_assessment = None \<rparr>)"

section \<open>The supervisor (services/geminiService.ts, processEmergencyChat)\<close>

text \<open>
  The remote service is a parameter of the model. Each of its two calls takes
  the prompt and either fails or replies; \<open>Fails\<close> stands for everything that
  makes the \<^verbatim>\<open>try\<close> block throw at that call (the awaited call rejects, or
  \<^verbatim>\<open>JSON.parse\<close> throws on its text), \<open>Replies\<close> carries the parsed JSON,
  taken to be of the declared type. A reply without text is parsed from
  \<^verbatim>\<open>'{}'\<close> and is the record with no field. The field \<^verbatim>\<open>firstAid\<close> of
  the explanation reply is called \<open>firstAidText\<close>, the result having a field
  \<open>firstAid\<close> of its own.
\<close>

datatype Language = en | hi | mr

datatype 'a reply = Fails | Replies 'a

record Content =
  explanation :: "string option"
  firstAidText :: "string option"

record Service =
  extractCall :: "string \<Rightarrow> Vitals reply"
  explainCall :: "string \<Rightarrow> Content reply"

record ChatResult =
  vitals :: Vitals
  triage :: TriageResult
  aiExplanation :: "string option"
  firstAid :: "string option"
  isOffline :: bool

text \<open>A service whose call gives the same reply to every prompt.\<close>

definition always :: "'a reply \<Rightarrow> string \<Rightarrow> 'a reply" where
  [simp]: "always r prompt = r"

text \<open>
  A run returns the result together with the arguments of every call of
  \<open>TriageEngine.calculate\<close> it made, in the order of the calls.
\<close>

record Run =
  returned :: ChatResult
  engine_calls :: "Vitals list"

definition dquote :: string where
  "dquote = [CHR 0x22]"

definition newline_indent :: string where
  "newline_indent = CHR 0x0A # ''        ''"

definition extract_prompt :: "string \<Rightarrow> string" where
  "extract_prompt input =
     ''Extract clinical vitals from: '' @ dquote @ input @ dquote @ ''. '' @ newline_indent @
     ''Return JSON. Consciousness: alert, confused, drowsy, unconscious.''"

definition explain_prompt :: "TriageResult \<Rightarrow> string \<Rightarrow> Language \<Rightarrow> string" where
  "explain_prompt triageResult input lang =
     ''Patient: '' @ level_text (priority triageResult) @ ''. Reasons: '' @
     join '', '' (reasons triageResult) @ ''. Input: '' @ dquote @ input @ dquote @ ''. '' @
     newline_indent @ ''Explain calmly in '' @
     (if lang = en then ''English'' else if lang = hi then ''Hindi'' else ''Marathi'') @
     ''. 3 first aid tips.''"

text \<open>\<^verbatim>\<open>{ ...localVitals, ...aiVitals }\<close>: a key of the second object wins.\<close>

definition spread_field :: "'a option \<Rightarrow> 'a option \<Rightarrow> 'a option" where
  "spread_field l r = (case r of Some x \<Rightarrow> Some x | None \<Rightarrow> l)"

definition spread :: "Vitals \<Rightarrow> Vitals \<Rightarrow> Vitals" where
  "spread localVitals aiVitals =
     \<lparr> age = spread_field (age localVitals) (age aiVitals),
       systolic_bp = spread_field (systolic_bp localVitals) (systolic_bp aiVitals),
       heart_rate = spread_field (heart_rate localVitals) (heart_rate aiVitals),
       spo2 = spread_field (spo2 localVitals) (spo2 aiVitals),
       temperature = spread_field (temperature localVitals) (temperature aiVitals),
       consciousness = spread_field (consciousness localVitals) (consciousness aiVitals),
       doctor_assessment =
         spread_field (doctor_assessment localVitals) (doctor_assessment aiVitals) \<rparr>"

definition no_vitals :: Vitals where
  "no_vitals =
     \<lparr> age = None, systolic_bp = None, heart_rate = None, spo2 = None, temperature = None,
       consciousness = None, doctor_assessment = None \<rparr>"

text \<open>The \<^verbatim>\<open>catch\<close> block; \<open>calls\<close> are the engine calls made before the throw.\<close>

definition fallback :: "Vitals \<Rightarrow> Vitals list \<Rightarrow> Run" where
  "fallback localVitals calls =
     (let triageResult = calculate localVitals in
      \<lparr> returned =
          \<lparr> vitals = localVitals,
            triage = triageResult,
            aiExplanation = Some (''LOCAL SAFETY ENGINE ACTIVE: Based on the information '' @
              ''provided, we have calculated your triage priority locally.''),
            firstAid =
              Some (if priority triageResult = CRITICAL
                    then ''Apply pressure to wounds. Keep airway clear. Wait for help.''
                    else ''Stay calm. Monitor breathing and stay in a safe place.''),
            isOffline = True \<rparr>,
        engine_calls = calls @ [localVitals] \<rparr>)"

definition processEmergencyChat :: "Service \<Rightarrow> string \<Rightarrow> Language \<Rightarrow> Run" where
  "processEmergencyChat ai input lang =
     (let localVitals = localExtract input in
      case extractCall ai (extract_prompt input) of
        Fails \<Rightarrow> fallback localVitals []
      | Replies aiVitals \<Rightarrow>
          (let finalVitals = spread localVitals aiVitals;
               triageResult = calculate finalVitals
           in case explainCall ai (explain_prompt triageResult input lang) of
                Fails \<Rightarrow> fallback localVitals [finalVitals]
              | Replies content \<Rightarrow>
                  \<lparr> returned =
                      \<lparr> vitals = finalVitals,
                        triage = triageResult,
                        aiExplanation = explanation content,
                        firstAid = firstAidText content,
                        isOffline = False \<rparr>,
                    engine_calls = [finalVitals] \<rparr>))"

section \<open>Properties of the decision engine\<close>

subsection \<open>Auxiliary facts\<close>

lemma abcde_status_calculate: "abcde_status (calculate v) = computeABCDE v"
  by (simp add: calculate_def Let_def split: list.splits)

lemma fst_breathing_rule: "fst (breathing_rule v t) \<le> fst t + 2"
  by (simp add: breathing_rule_def rule_def fire_def)

lemma fst_heart_rule: "fst (heart_rule v t) \<le> fst t + 2"
  by (simp add: heart_rule_def rule_def fire_def)

lemma fst_pressure_rule: "fst (pressure_rule v t) \<le> fst t + 2"
  by (simp add: pressure_rule_def fire_def split: option.splits)

lemma fst_disability_rule: "fst (disability_rule v t) \<le> fst t + 3"
  by (simp add: disability_rule_def rule_def fire_def)

lemma fst_exposure_rule: "fst (exposure_rule v t) \<le> fst t + 1"
  by (simp add: exposure_rule_def rule_def fire_def)

lemma fst_age_rule: "fst (age_rule v t) \<le> fst t + 1"
  by (simp add: age_rule_def rule_def fire_def)

lemma fst_provider_rule: "fst (provider_rule v t) \<le> fst t + 2"
  by (simp add: provider_rule_def rule_def fire_def)

lemma tally_le_13: "fst (tally_of v) \<le> 13"
proof -
  let ?t1 = "breathing_rule v (0, [])"
  let ?t2 = "heart_rule v ?t1"
  let ?t3 = "pressure_rule v ?t2"
  let ?t4 = "disability_rule v ?t3"
  let ?t5 = "exposure_rule v ?t4"
  let ?t6 = "age_rule v ?t5"
  have "fst ?t1 \<le> 2" using fst_breathing_rule [of v "(0, [])"] by simp
  moreover have "fst ?t2 \<le> fst ?t1 + 2" by (rule fst_heart_rule)
  moreover have "fst ?t3 \<le> fst ?t2 + 2" by (rule fst_pressure_rule)
  moreover have "fst ?t4 \<le> fst ?t3 + 3" by (rule fst_disability_rule)
  moreover have "fst ?t5 \<le> fst ?t4 + 1" by (rule fst_exposure_rule)
  moreover have "fst ?t6 \<le> fst ?t5 + 1" by (rule fst_age_rule)
  moreover have "fst (tally_of v) \<le> fst ?t6 + 2"
    unfolding tally_of_def by (rule fst_provider_rule)
  ultimately show ?thesis by linarith
qed

lemma rule_keeps: "x \<notin> set (snd t) \<Longrightarrow> x \<noteq> r \<Longrightarrow> x \<notin> set (snd (rule c w r t))"
  by (simp add: rule_def fire_def)

lemma pressure_rule_keeps:
  "x \<notin> set (snd t) \<Longrightarrow> x \<noteq> ''Blood pressure elevated above 180 mmHg'' \<Longrightarrow>
   \<not> truthy_and (systolic_bp v) (\<lambda>y. y < 90) \<Longrightarrow> x \<notin> set (snd (pressure_rule v t))"
  unfolding pressure_rule_def fire_def by (cases "systolic_bp v") auto

lemma low_normal_bp_not_tallied:
  assumes no_shock: "\<not> truthy_and (systolic_bp v) (\<lambda>y. y < 90)"
  shows "''Blood pressure in low-normal range (80-90 mmHg)'' \<notin> set (snd (tally_of v))"
proof -
  let ?x = "''Blood pressure in low-normal range (80-90 mmHg)''"
  have 0: "?x \<notin> set (snd (0::nat, []::string list))"
    by simp
  have 1: "?x \<notin> set (snd (breathing_rule v (0, [])))"
    unfolding breathing_rule_def by (rule rule_keeps [OF 0]) simp
  have 2: "?x \<notin> set (snd (heart_rule v (breathing_rule v (0, []))))"
    unfolding heart_rule_def by (rule rule_keeps [OF 1]) simp
  have 3: "?x \<notin> set (snd (pressure_rule v (heart_rule v (breathing_rule v (0, [])))))"
    by (rule pressure_rule_keeps [OF 2 _ no_shock]) simp
  have 4: "?x \<notin> set (snd (disability_rule v
      (pressure_rule v (heart_rule v (breathing_rule v (0, []))))))"
    unfolding disability_rule_def by (rule rule_keeps [OF 3]) simp
  have 5: "?x \<notin> set (snd (exposure_rule v (disability_rule v
      (pressure_rule v (heart_rule v (breathing_rule v (0, [])))))))"
    unfolding exposure_rule_def by (rule rule_keeps [OF 4]) simp
  have 6: "?x \<notin> set (snd (age_rule v (exposure_rule v (disability_rule v
      (pressure_rule v (heart_rule v (breathing_rule v (0, []))))))))"
    unfolding age_rule_def by (rule rule_keeps [OF 5]) simp
  show ?thesis
    unfolding tally_of_def provider_rule_def by (rule rule_keeps [OF 6]) simp
qed

lemma red_flag_is_not_low_normal_bp:
  "x \<in> set (checkRedFlags v) \<Longrightarrow> x \<noteq> ''Blood pressure in low-normal range (80-90 mmHg)''"
  by (auto simp: checkRedFlags_def split: if_splits)

lemma zero_checkRedFlags:
  "checkRedFlags (v\<lparr>spo2 := Some 0\<rparr>) = checkRedFlags (v\<lparr>spo2 := None\<rparr>)"
  "checkRedFlags (v\<lparr>systolic_bp := Some 0\<rparr>) = checkRedFlags (v\<lparr>systolic_bp := None\<rparr>)"
  "checkRedFlags (v\<lparr>heart_rate := Some 0\<rparr>) = checkRedFlags (v\<lparr>heart_rate := None\<rparr>)"
  "checkRedFlags (v\<lparr>temperature := Some 0\<rparr>) = checkRedFlags (v\<lparr>temperature := None\<rparr>)"
  "checkRedFlags (v\<lparr>age := Some 0\<rparr>) = checkRedFlags (v\<lparr>age := None\<rparr>)"
  by (simp_all add: checkRedFlags_def)

lemma zero_computeABCDE:
  "computeABCDE (v\<lparr>spo2 := Some 0\<rparr>) = computeABCDE (v\<lparr>spo2 := None\<rparr>)"
  "computeABCDE (v\<lparr>systolic_bp := Some 0\<rparr>) = computeABCDE (v\<lparr>systolic_bp := None\<rparr>)"
  "computeABCDE (v\<lparr>heart_rate := Some 0\<rparr>) = computeABCDE (v\<lparr>heart_rate := None\<rparr>)"
  "computeABCDE (v\<lparr>temperature := Some 0\<rparr>) = computeABCDE (v\<lparr>temperature := None\<rparr>)"
  "computeABCDE (v\<lparr>age := Some 0\<rparr>) = computeABCDE (v\<lparr>age := None\<rparr>)"
  by (simp_all add: computeABCDE_def)

lemma zero_tally_of:
  "tally_of (v\<lparr>spo2 := Some 0\<rparr>) = tally_of (v\<lparr>spo2 := None\<rparr>)"
  "tally_of (v\<lparr>systolic_bp := Some 0\<rparr>) = tally_of (v\<lparr>systolic_bp := None\<rparr>)"
  "tally_of (v\<lparr>heart_rate := Some 0\<rparr>) = tally_of (v\<lparr>heart_rate := None\<rparr>)"
  "tally_of (v\<lparr>temperature := Some 0\<rparr>) = tally_of (v\<lparr>temperature := None\<rparr>)"
  "tally_of (v\<lparr>age := Some 0\<rparr>) = tally_of (v\<lparr>age := None\<rparr>)"
  by (simp_all add: tally_of_def breathing_rule_def heart_rule_def
        pressure_rule_def disability_rule_def exposure_rule_def age_rule_def provider_rule_def)

subsection \<open>C1: red flags against score and priority\<close>

text \<open>
  C1 as stated: \<open>red_flags_detected\<close> is true if and only if \<open>score = 10\<close> and
  \<open>priority = CRITICAL\<close>. The direction from right to left fails: every scoring
  rule but the drowsiness rule firing gives 2 + 2 + 2 + 1 + 1 + 2 = 10 on the
  scoring path, which is CRITICAL with no red flag.
\<close>

theorem score_10_critical_without_red_flags:
  "\<not> (red_flags_detected (calculate
       \<lparr> age = Some 65, systolic_bp = Some 190, heart_rate = Some 130, spo2 = Some 91,
         temperature = Some 39, consciousness = Some alert, doctor_assessment = Some moderate \<rparr>)
     \<longleftrightarrow>
       score (calculate
       \<lparr> age = Some 65, systolic_bp = Some 190, heart_rate = Some 130, spo2 = Some 91,
         temperature = Some 39, consciousness = Some alert, doctor_assessment = Some moderate \<rparr>) = 10 \<and>
       priority (calculate
       \<lparr> age = Some 65, systolic_bp = Some 190, heart_rate = Some 130, spo2 = Some 91,
         temperature = Some 39, consciousness = Some alert, doctor_assessment = Some moderate \<rparr>) = CRITICAL)"
  by (simp add: calculate_def checkRedFlags_def priority_of_def Let_def rule_def fire_def
        tally_of_def breathing_rule_def heart_rule_def pressure_rule_def
        disability_rule_def exposure_rule_def age_rule_def provider_rule_def)

text \<open>
  C1 (amended): whenever \<open>red_flags_detected\<close> is true, \<open>score = 10\<close> and
  \<open>priority = CRITICAL\<close>.
\<close>

theorem red_flags_imply_score_10_critical:
  "red_flags_detected (calculate v) \<Longrightarrow>
     score (calculate v) = 10 \<and> priority (calculate v) = CRITICAL"
  by (simp add: calculate_def Let_def split: list.splits)

theorem red_flags_imply_score_10_critical_witness:
  "red_flags_detected (calculate
       \<lparr> age = Some 30, systolic_bp = Some 120, heart_rate = Some 70, spo2 = Some 85,
         temperature = Some 37, consciousness = Some alert, doctor_assessment = Some low \<rparr>) \<and>
   score (calculate
       \<lparr> age = Some 30, systolic_bp = Some 120, heart_rate = Some 70, spo2 = Some 85,
         temperature = Some 37, consciousness = Some alert, doctor_assessment = Some low \<rparr>) = 10 \<and>
   priority (calculate
       \<lparr> age = Some 30, systolic_bp = Some 120, heart_rate = Some 70, spo2 = Some 85,
         temperature = Some 37, consciousness = Some alert, doctor_assessment = Some low \<rparr>) = CRITICAL"
proof -
  have flagged: "red_flags_detected (calculate
       \<lparr> age = Some 30, systolic_bp = Some 120, heart_rate = Some 70, spo2 = Some 85,
         temperature = Some 37, consciousness = Some alert, doctor_assessment = Some low \<rparr>)"
    by (simp add: calculate_def checkRedFlags_def)
  show ?thesis
    using flagged red_flags_imply_score_10_critical [OF flagged] by simp
qed

subsection \<open>C2: dominance of the oxygen red flag\<close>

text \<open>
  C2 as stated: every record with \<open>spo2\<close> present and below 90 is CRITICAL with
  score 10 and red flags detected. It fails at \<open>spo2 = 0\<close>: zero is falsy, so
  the guard \<^verbatim>\<open>vitals.spo2 && vitals.spo2 < 90\<close> does not fire.
\<close>

theorem zero_spo2_not_critical:
  "priority (calculate
       \<lparr> age = None, systolic_bp = None, heart_rate = None, spo2 = Some 0,
         temperature = None, consciousness = None, doctor_assessment = None \<rparr>) = STABLE \<and>
   score (calculate
       \<lparr> age = None, systolic_bp = None, heart_rate = None, spo2 = Some 0,
         temperature = None, consciousness = None, doctor_assessment = None \<rparr>) = 0 \<and>
   red_flags_detected (calculate
       \<lparr> age = None, systolic_bp = None, heart_rate = None, spo2 = Some 0,
         temperature = None, consciousness = None, doctor_assessment = None \<rparr>) = False"
  by (simp add: calculate_def checkRedFlags_def priority_of_def Let_def rule_def fire_def
        tally_of_def breathing_rule_def heart_rule_def pressure_rule_def
        disability_rule_def exposure_rule_def age_rule_def provider_rule_def)

text \<open>
  C2 (amended): every record with \<open>spo2\<close> present, different from zero and
  below 90 is CRITICAL with score 10 and red flags detected, whatever the other
  fields hold.
\<close>

theorem low_spo2_red_flag_dominance:
  "spo2 v = Some x \<Longrightarrow> x \<noteq> 0 \<Longrightarrow> x < 90 \<Longrightarrow>
     priority (calculate v) = CRITICAL \<and> score (calculate v) = 10 \<and>
     red_flags_detected (calculate v) = True"
  by (simp add: calculate_def checkRedFlags_def)

theorem low_spo2_red_flag_dominance_witness:
  "priority (calculate
       \<lparr> age = Some 30, systolic_bp = Some 120, heart_rate = Some 70, spo2 = Some 85,
         temperature = Some 37, consciousness = Some alert, doctor_assessment = Some low \<rparr>) = CRITICAL \<and>
   score (calculate
       \<lparr> age = Some 30, systolic_bp = Some 120, heart_rate = Some 70, spo2 = Some 85,
         temperature = Some 37, consciousness = Some alert, doctor_assessment = Some low \<rparr>) = 10 \<and>
   red_flags_detected (calculate
       \<lparr> age = Some 30, systolic_bp = Some 120, heart_rate = Some 70, spo2 = Some 85,
         temperature = Some 37, consciousness = Some alert, doctor_assessment = Some low \<rparr>) = True"
  using low_spo2_red_flag_dominance [of
       "\<lparr> age = Some 30, systolic_bp = Some 120, heart_rate = Some 70, spo2 = Some 85,
         temperature = Some 37, consciousness = Some alert, doctor_assessment = Some low \<rparr>" 85]
  by simp

subsection \<open>C6: priority as a step function of the score\<close>

text \<open>
  C6: when no red-flag condition holds, the priority is STABLE for a score
  below 4, URGENT for a score from 4 to 6 and CRITICAL for a score of 7 or more.
\<close>

theorem priority_step_function:
  "checkRedFlags v = [] \<Longrightarrow>
     (score (calculate v) < 4 \<longrightarrow> priority (calculate v) = STABLE) \<and>
     (4 \<le> score (calculate v) \<and> score (calculate v) < 7 \<longrightarrow>
        priority (calculate v) = URGENT) \<and>
     (7 \<le> score (calculate v) \<longrightarrow> priority (calculate v) = CRITICAL)"
  by (simp add: calculate_def Let_def priority_of_def)

theorem priority_step_function_witness:
  "checkRedFlags
       \<lparr> age = Some 65, systolic_bp = None, heart_rate = None, spo2 = None,
         temperature = Some 39, consciousness = Some alert, doctor_assessment = None \<rparr> = [] \<and>
   score (calculate
       \<lparr> age = Some 65, systolic_bp = None, heart_rate = None, spo2 = None,
         temperature = Some 39, consciousness = Some alert, doctor_assessment = None \<rparr>) = 2 \<and>
   priority (calculate
       \<lparr> age = Some 65, systolic_bp = None, heart_rate = None, spo2 = None,
         temperature = Some 39, consciousness = Some alert, doctor_assessment = None \<rparr>) = STABLE \<and>
   checkRedFlags
       \<lparr> age = None, systolic_bp = None, heart_rate = Some 130, spo2 = None,
         temperature = None, consciousness = Some drowsy, doctor_assessment = None \<rparr> = [] \<and>
   score (calculate
       \<lparr> age = None, systolic_bp = None, heart_rate = Some 130, spo2 = None,
         temperature = None, consciousness = Some drowsy, doctor_assessment = None \<rparr>) = 5 \<and>
   priority (calculate
       \<lparr> age = None, systolic_bp = None, heart_rate = Some 130, spo2 = None,
         temperature = None, consciousness = Some drowsy, doctor_assessment = None \<rparr>) = URGENT \<and>
   checkRedFlags
       \<lparr> age = Some 65, systolic_bp = Some 190, heart_rate = Some 130, spo2 = Some 91,
         temperature = Some 39, consciousness = Some drowsy, doctor_assessment = Some moderate \<rparr> = [] \<and>
   score (calculate
       \<lparr> age = Some 65, systolic_bp = Some 190, heart_rate = Some 130, spo2 = Some 91,
         temperature = Some 39, consciousness = Some drowsy, doctor_assessment = Some moderate \<rparr>) = 13 \<and>
   priority (calculate
       \<lparr> age = Some 65, systolic_bp = Some 190, heart_rate = Some 130, spo2 = Some 91,
         temperature = Some 39, consciousness = Some drowsy, doctor_assessment = Some moderate \<rparr>) = CRITICAL"
proof -
  let ?s = "\<lparr> age = Some 65, systolic_bp = None, heart_rate = None, spo2 = None,
         temperature = Some 39, consciousness = Some alert, doctor_assessment = None \<rparr>"
  let ?u = "\<lparr> age = None, systolic_bp = None, heart_rate = Some 130, spo2 = None,
         temperature = None, consciousness = Some drowsy, doctor_assessment = None \<rparr>"
  let ?c = "\<lparr> age = Some 65, systolic_bp = Some 190, heart_rate = Some 130, spo2 = Some 91,
         temperature = Some 39, consciousness = Some drowsy, doctor_assessment = Some moderate \<rparr>"
  have none: "checkRedFlags ?s = []" "checkRedFlags ?u = []" "checkRedFlags ?c = []"
    by (simp_all add: checkRedFlags_def)
  have two: "score (calculate ?s) = 2"
    by (simp add: calculate_def none Let_def rule_def fire_def
        tally_of_def breathing_rule_def heart_rule_def
        pressure_rule_def disability_rule_def exposure_rule_def age_rule_def provider_rule_def)
  have five: "score (calculate ?u) = 5"
    by (simp add: calculate_def none Let_def rule_def fire_def
        tally_of_def breathing_rule_def heart_rule_def
        pressure_rule_def disability_rule_def exposure_rule_def age_rule_def provider_rule_def)
  have top: "score (calculate ?c) = 13"
    by (simp add: calculate_def none Let_def rule_def fire_def
        tally_of_def breathing_rule_def heart_rule_def
        pressure_rule_def disability_rule_def exposure_rule_def age_rule_def provider_rule_def)
  have "priority (calculate ?s) = STABLE"
    using priority_step_function [OF none(1)] two by simp
  moreover have "priority (calculate ?u) = URGENT"
    using priority_step_function [OF none(2)] five by simp
  moreover have "priority (calculate ?c) = CRITICAL"
    using priority_step_function [OF none(3)] top by simp
  ultimately show ?thesis
    using none two five top by simp
qed

subsection \<open>C7: the largest score\<close>

text \<open>
  C7: the score of the scoring path is at most 13 for every record, and a
  record without any red flag reaches 13; the score is not clamped to 10.
\<close>

theorem score_at_most_13_attained:
  "fst (tally_of v) \<le> 13 \<and> score (calculate v) \<le> 13 \<and>
   checkRedFlags
       \<lparr> age = Some 65, systolic_bp = Some 190, heart_rate = Some 130, spo2 = Some 91,
         temperature = Some 39, consciousness = Some drowsy, doctor_assessment = Some moderate \<rparr> = [] \<and>
   score (calculate
       \<lparr> age = Some 65, systolic_bp = Some 190, heart_rate = Some 130, spo2 = Some 91,
         temperature = Some 39, consciousness = Some drowsy, doctor_assessment = Some moderate \<rparr>) = 13"
proof -
  have bound: "fst (tally_of v) \<le> 13"
    by (rule tally_le_13)
  have total: "score (calculate v) \<le> 13"
    using bound by (simp add: calculate_def Let_def split: list.splits)
  have none: "checkRedFlags
       \<lparr> age = Some 65, systolic_bp = Some 190, heart_rate = Some 130, spo2 = Some 91,
         temperature = Some 39, consciousness = Some drowsy, doctor_assessment = Some moderate \<rparr> = []"
    by (simp add: checkRedFlags_def)
  have top: "score (calculate
       \<lparr> age = Some 65, systolic_bp = Some 190, heart_rate = Some 130, spo2 = Some 91,
         temperature = Some 39, consciousness = Some drowsy, doctor_assessment = Some moderate \<rparr>) = 13"
    by (simp add: calculate_def none Let_def rule_def fire_def
        tally_of_def breathing_rule_def heart_rule_def pressure_rule_def
        disability_rule_def exposure_rule_def age_rule_def provider_rule_def)
  show ?thesis
    using bound total none top by simp
qed

subsection \<open>C8: the ABCDE status\<close>

text \<open>
  C8: on both paths the ABCDE status is the one \<open>computeABCDE\<close> derives
  from the record. Each category has a value of its closed enumeration and
  depends only on its own field: two records that agree on a field agree on its
  category, on whichever path each of them is decided. An unconscious patient
  with an oxygen saturation of 92 or more triggers a red flag and still has
  Airway AT RISK and Breathing ADEQUATE; a confused patient has Disability
  ALERT.
\<close>

theorem abcde_from_vitals_on_both_paths:
  "abcde_status (calculate v) = computeABCDE v \<and>
   (consciousness v = consciousness w \<longrightarrow>
      A_Airway (abcde_status (calculate v)) = A_Airway (abcde_status (calculate w)) \<and>
      D_Disability (abcde_status (calculate v)) = D_Disability (abcde_status (calculate w))) \<and>
   (spo2 v = spo2 w \<longrightarrow>
      B_Breathing (abcde_status (calculate v)) = B_Breathing (abcde_status (calculate w))) \<and>
   (systolic_bp v = systolic_bp w \<longrightarrow>
      C_Circulation (abcde_status (calculate v)) =
      C_Circulation (abcde_status (calculate w))) \<and>
   (temperature v = temperature w \<longrightarrow>
      E_Exposure (abcde_status (calculate v)) = E_Exposure (abcde_status (calculate w))) \<and>
   A_Airway (abcde_status (calculate v)) \<in> {''AT RISK'', ''OPEN''} \<and>
   B_Breathing (abcde_status (calculate v)) \<in>
      {''UNKNOWN'', ''CRITICAL'', ''LOW-NORMAL'', ''ADEQUATE''} \<and>
   C_Circulation (abcde_status (calculate v)) \<in>
      {''UNKNOWN'', ''SHOCK'', ''LOW-NORMAL'', ''HYPERTENSIVE'', ''ADEQUATE''} \<and>
   D_Disability (abcde_status (calculate v)) \<in> {''UNCONSCIOUS'', ''DROWSY'', ''ALERT''} \<and>
   E_Exposure (abcde_status (calculate v)) \<in>
      {''UNKNOWN'', ''CRITICAL'', ''FEVER'', ''NORMAL''} \<and>
   (consciousness v = Some unconscious \<and> spo2 v = Some x \<and> 92 \<le> x \<longrightarrow>
      red_flags_detected (calculate v) \<and>
      A_Airway (abcde_status (calculate v)) = ''AT RISK'' \<and>
      B_Breathing (abcde_status (calculate v)) = ''ADEQUATE'') \<and>
   (consciousness v = Some confused \<longrightarrow>
      D_Disability (abcde_status (calculate v)) = ''ALERT'')"
proof -
  have flagged: "consciousness v = Some unconscious \<Longrightarrow> red_flags_detected (calculate v)"
    by (simp add: calculate_def checkRedFlags_def Let_def split: list.splits)
  show ?thesis
    unfolding abcde_status_calculate
    using flagged by (simp add: computeABCDE_def split: option.splits)
qed

theorem abcde_from_vitals_on_both_paths_witness:
  "red_flags_detected (calculate
       \<lparr> age = None, systolic_bp = None, heart_rate = None, spo2 = Some 98,
         temperature = None, consciousness = Some unconscious, doctor_assessment = None \<rparr>) \<and>
   A_Airway (abcde_status (calculate
       \<lparr> age = None, systolic_bp = None, heart_rate = None, spo2 = Some 98,
         temperature = None, consciousness = Some unconscious, doctor_assessment = None \<rparr>)) = ''AT RISK'' \<and>
   B_Breathing (abcde_status (calculate
       \<lparr> age = None, systolic_bp = None, heart_rate = None, spo2 = Some 98,
         temperature = None, consciousness = Some unconscious, doctor_assessment = None \<rparr>)) = ''ADEQUATE'' \<and>
   \<not> red_flags_detected (calculate
       \<lparr> age = None, systolic_bp = None, heart_rate = None, spo2 = Some 98,
         temperature = None, consciousness = Some confused, doctor_assessment = None \<rparr>) \<and>
   B_Breathing (abcde_status (calculate
       \<lparr> age = None, systolic_bp = None, heart_rate = None, spo2 = Some 98,
         temperature = None, consciousness = Some confused, doctor_assessment = None \<rparr>)) = ''ADEQUATE'' \<and>
   D_Disability (abcde_status (calculate
       \<lparr> age = None, systolic_bp = None, heart_rate = None, spo2 = Some 98,
         temperature = None, consciousness = Some confused, doctor_assessment = None \<rparr>)) = ''ALERT''"
proof -
  let ?u = "\<lparr> age = None, systolic_bp = None, heart_rate = None, spo2 = Some 98,
         temperature = None, consciousness = Some unconscious, doctor_assessment = None \<rparr>"
  let ?c = "\<lparr> age = None, systolic_bp = None, heart_rate = None, spo2 = Some 98,
         temperature = None, consciousness = Some confused, doctor_assessment = None \<rparr>"
  have scored: "\<not> red_flags_detected (calculate ?c)"
    by (simp add: calculate_def checkRedFlags_def Let_def)
  have hyp: "consciousness ?u = Some unconscious \<and> spo2 ?u = Some 98 \<and> (92::real) \<le> 98"
    by simp
  have same: "spo2 ?u = spo2 ?c"
    by simp
  have conf: "consciousness ?c = Some confused"
    by simp
  from abcde_from_vitals_on_both_paths [of ?u ?c 98] hyp same
  have u: "red_flags_detected (calculate ?u) \<and>
      A_Airway (abcde_status (calculate ?u)) = ''AT RISK'' \<and>
      B_Breathing (abcde_status (calculate ?u)) = ''ADEQUATE''"
    and b: "B_Breathing (abcde_status (calculate ?u)) = B_Breathing (abcde_status (calculate ?c))"
    by blast+
  from abcde_from_vitals_on_both_paths [of ?c ?c 0] conf
  have d: "D_Disability (abcde_status (calculate ?c)) = ''ALERT''"
    by blast
  show ?thesis
    using u b d scored by simp
qed

subsection \<open>C9: a number that is zero counts as missing\<close>

text \<open>
  C9: setting a numeric field (\<open>spo2\<close>, \<open>systolic_bp\<close>, \<open>heart_rate\<close>,
  \<open>temperature\<close>, \<open>age\<close>) to 0 gives the same TriageResult as removing it.
  No red flag fires on the zero, and Breathing, Circulation and Exposure are
  UNKNOWN for a zero \<open>spo2\<close>, \<open>systolic_bp\<close> and \<open>temperature\<close>.
\<close>

theorem zero_number_behaves_as_absent:
  "calculate (v\<lparr>spo2 := Some 0\<rparr>) = calculate (v\<lparr>spo2 := None\<rparr>) \<and>
   calculate (v\<lparr>systolic_bp := Some 0\<rparr>) = calculate (v\<lparr>systolic_bp := None\<rparr>) \<and>
   calculate (v\<lparr>heart_rate := Some 0\<rparr>) = calculate (v\<lparr>heart_rate := None\<rparr>) \<and>
   calculate (v\<lparr>temperature := Some 0\<rparr>) = calculate (v\<lparr>temperature := None\<rparr>) \<and>
   calculate (v\<lparr>age := Some 0\<rparr>) = calculate (v\<lparr>age := None\<rparr>) \<and>
   ''Oxygen saturation critically low (<90%)'' \<notin> set (checkRedFlags (v\<lparr>spo2 := Some 0\<rparr>)) \<and>
   ''Blood pressure critically low (<90 mmHg)'' \<notin>
      set (checkRedFlags (v\<lparr>systolic_bp := Some 0\<rparr>)) \<and>
   B_Breathing (abcde_status (calculate (v\<lparr>spo2 := Some 0\<rparr>))) = ''UNKNOWN'' \<and>
   C_Circulation (abcde_status (calculate (v\<lparr>systolic_bp := Some 0\<rparr>))) = ''UNKNOWN'' \<and>
   E_Exposure (abcde_status (calculate (v\<lparr>temperature := Some 0\<rparr>))) = ''UNKNOWN''"
proof -
  have f1: "calculate (v\<lparr>spo2 := Some 0\<rparr>) = calculate (v\<lparr>spo2 := None\<rparr>)"
    by (simp only: calculate_def zero_checkRedFlags zero_computeABCDE zero_tally_of)
  have f2: "calculate (v\<lparr>systolic_bp := Some 0\<rparr>) = calculate (v\<lparr>systolic_bp := None\<rparr>)"
    by (simp only: calculate_def zero_checkRedFlags zero_computeABCDE zero_tally_of)
  have f3: "calculate (v\<lparr>heart_rate := Some 0\<rparr>) = calculate (v\<lparr>heart_rate := None\<rparr>)"
    by (simp only: calculate_def zero_checkRedFlags zero_computeABCDE zero_tally_of)
  have f4: "calculate (v\<lparr>temperature := Some 0\<rparr>) = calculate (v\<lparr>temperature := None\<rparr>)"
    by (simp only: calculate_def zero_checkRedFlags zero_computeABCDE zero_tally_of)
  have f5: "calculate (v\<lparr>age := Some 0\<rparr>) = calculate (v\<lparr>age := None\<rparr>)"
    by (simp only: calculate_def zero_checkRedFlags zero_computeABCDE zero_tally_of)
  have r1: "''Oxygen saturation critically low (<90%)'' \<notin>
      set (checkRedFlags (v\<lparr>spo2 := Some 0\<rparr>))"
    by (simp add: checkRedFlags_def)
  have r2: "''Blood pressure critically low (<90 mmHg)'' \<notin>
      set (checkRedFlags (v\<lparr>systolic_bp := Some 0\<rparr>))"
    by (simp add: checkRedFlags_def)
  have u1: "B_Breathing (abcde_status (calculate (v\<lparr>spo2 := Some 0\<rparr>))) = ''UNKNOWN''"
    by (simp add: abcde_status_calculate computeABCDE_def)
  have u2: "C_Circulation (abcde_status (calculate (v\<lparr>systolic_bp := Some 0\<rparr>))) = ''UNKNOWN''"
    by (simp add: abcde_status_calculate computeABCDE_def)
  have u3: "E_Exposure (abcde_status (calculate (v\<lparr>temperature := Some 0\<rparr>))) = ''UNKNOWN''"
    by (simp add: abcde_status_calculate computeABCDE_def)
  show ?thesis
    using f1 f2 f3 f4 f5 r1 r2 u1 u2 u3 by simp
qed

theorem zero_number_behaves_as_absent_witness:
  "score (calculate
       \<lparr> age = Some 70, systolic_bp = Some 120, heart_rate = Some 80, spo2 = Some 95,
         temperature = Some 0, consciousness = Some drowsy, doctor_assessment = Some moderate \<rparr>) = 6 \<and>
   E_Exposure (abcde_status (calculate
       \<lparr> age = Some 70, systolic_bp = Some 120, heart_rate = Some 80, spo2 = Some 95,
         temperature = Some 0, consciousness = Some drowsy, doctor_assessment = Some moderate \<rparr>)) = ''UNKNOWN''"
proof -
  let ?v = "\<lparr> age = Some 70, systolic_bp = Some 120, heart_rate = Some 80, spo2 = Some 95,
         temperature = Some 39, consciousness = Some drowsy, doctor_assessment = Some moderate \<rparr>"
  have six: "score (calculate (?v\<lparr>temperature := None\<rparr>)) = 6"
    by (simp add: calculate_def checkRedFlags_def Let_def rule_def fire_def
        tally_of_def breathing_rule_def heart_rule_def
        pressure_rule_def disability_rule_def exposure_rule_def age_rule_def provider_rule_def)
  from zero_number_behaves_as_absent [of ?v]
  have same: "calculate (?v\<lparr>temperature := Some 0\<rparr>) = calculate (?v\<lparr>temperature := None\<rparr>)"
    and unknown: "E_Exposure (abcde_status (calculate (?v\<lparr>temperature := Some 0\<rparr>))) = ''UNKNOWN''"
    by blast+
  have "score (calculate (?v\<lparr>temperature := Some 0\<rparr>)) = 6"
    using six by (simp only: same)
  then show ?thesis
    using unknown by simp
qed

subsection \<open>C10: the low-normal blood-pressure rule never fires\<close>

text \<open>
  C10: the reasons of a TriageResult never hold the string of the low-normal
  blood-pressure rule. A systolic pressure in [80, 90) is a red flag, so the
  scoring path is never entered with it.
\<close>

theorem low_normal_bp_reason_unreachable:
  "''Blood pressure in low-normal range (80-90 mmHg)'' \<notin> set (reasons (calculate v))"
proof (cases "checkRedFlags v")
  case Nil
  then have no_shock: "\<not> truthy_and (systolic_bp v) (\<lambda>y. y < 90)"
    by (simp add: checkRedFlags_def split: if_splits)
  show ?thesis
    using Nil low_normal_bp_not_tallied [OF no_shock] by (simp add: calculate_def Let_def)
next
  case (Cons flag rest)
  have "''Blood pressure in low-normal range (80-90 mmHg)'' \<notin> set (checkRedFlags v)"
    using red_flag_is_not_low_normal_bp [of _ v] by blast
  then show ?thesis
    using Cons by (simp add: calculate_def)
qed

theorem low_normal_bp_reason_unreachable_witness:
  "reasons (calculate
       \<lparr> age = None, systolic_bp = Some 85, heart_rate = None, spo2 = None,
         temperature = None, consciousness = Some alert, doctor_assessment = None \<rparr>) = [''Blood pressure critically low (<90 mmHg)''] \<and>
   ''Blood pressure in low-normal range (80-90 mmHg)'' \<notin> set (reasons (calculate
       \<lparr> age = None, systolic_bp = Some 85, heart_rate = None, spo2 = None,
         temperature = None, consciousness = Some alert, doctor_assessment = None \<rparr>))"
proof -
  have flagged: "reasons (calculate
       \<lparr> age = None, systolic_bp = Some 85, heart_rate = None, spo2 = None,
         temperature = None, consciousness = Some alert, doctor_assessment = None \<rparr>) = [''Blood pressure critically low (<90 mmHg)'']"
    by (simp add: calculate_def checkRedFlags_def)
  show ?thesis
    using flagged low_normal_bp_reason_unreachable [of
       "\<lparr> age = None, systolic_bp = Some 85, heart_rate = None, spo2 = None,
         temperature = None, consciousness = Some alert, doctor_assessment = None \<rparr>"]
    by simp
qed

section \<open>Properties of the parser and the supervisor\<close>

subsection \<open>Auxiliary facts\<close>

lemma localExtract_scenario_C:
  "localExtract ''temperature 39, age 65'' = no_vitals\<lparr>consciousness := Some alert\<rparr>"
  by code_simp

lemma localExtract_plain:
  "localExtract ''I feel a bit off'' = no_vitals\<lparr>consciousness := Some alert\<rparr>"
  by code_simp

lemma calculate_alert_only:
  "calculate (no_vitals\<lparr>consciousness := Some alert\<rparr>) =
     \<lparr> priority = STABLE, score = 0, reasons = [], red_flags_detected = False,
       abcde_status =
         \<lparr> A_Airway = ''OPEN'', B_Breathing = ''UNKNOWN'', C_Circulation = ''UNKNOWN'',
           D_Disability = ''ALERT'', E_Exposure = ''UNKNOWN'' \<rparr>,
       narrative_summary = ''STABLE: All vital signs within normal limits.'',
       decision_pathway =
         ''NO RED FLAGS '' @ arrow @ '' SCORE 0/10 '' @ arrow @ '' STABLE PRIORITY'' \<rparr>"
  by (simp add: calculate_def checkRedFlags_def computeABCDE_def no_vitals_def priority_of_def
        Let_def rule_def fire_def tally_of_def breathing_rule_def heart_rule_def digit_char_def
        pressure_rule_def disability_rule_def exposure_rule_def age_rule_def provider_rule_def)

lemma calculate_fever_and_age:
  "score (calculate
      (no_vitals\<lparr>temperature := Some 39, age := Some 65, consciousness := Some alert\<rparr>)) = 2 \<and>
   priority (calculate
      (no_vitals\<lparr>temperature := Some 39, age := Some 65, consciousness := Some alert\<rparr>)) =
     STABLE \<and>
   reasons (calculate
      (no_vitals\<lparr>temperature := Some 39, age := Some 65, consciousness := Some alert\<rparr>)) =
     [''Body temperature elevated above 38'' @ degree_sign @ ''C'',
      ''Patient age over 60 years'']"
  by (simp add: calculate_def checkRedFlags_def no_vitals_def priority_of_def Let_def
        rule_def fire_def tally_of_def breathing_rule_def heart_rule_def
        pressure_rule_def disability_rule_def exposure_rule_def age_rule_def provider_rule_def)

lemma spread_alert_fever_and_age:
  "spread (no_vitals\<lparr>consciousness := Some alert\<rparr>)
      (no_vitals\<lparr>temperature := Some 39, age := Some 65\<rparr>) =
   no_vitals\<lparr>temperature := Some 39, age := Some 65, consciousness := Some alert\<rparr>"
  by (simp add: spread_def spread_field_def no_vitals_def)

lemma calculate_alert_spo2_85:
  "priority (calculate
      (spread (no_vitals\<lparr>consciousness := Some alert\<rparr>) (no_vitals\<lparr>spo2 := Some 85\<rparr>))) =
     CRITICAL"
  by (simp add: spread_def spread_field_def no_vitals_def calculate_def checkRedFlags_def)

lemma processEmergencyChat_cases:
  "processEmergencyChat ai input lang =
     (case extractCall ai (extract_prompt input) of
        Fails \<Rightarrow> fallback (localExtract input) []
      | Replies aiVitals \<Rightarrow>
          (case explainCall ai
                  (explain_prompt (calculate (spread (localExtract input) aiVitals)) input lang) of
             Fails \<Rightarrow> fallback (localExtract input) [spread (localExtract input) aiVitals]
           | Replies content \<Rightarrow>
               \<lparr> returned =
                   \<lparr> vitals = spread (localExtract input) aiVitals,
                     triage = calculate (spread (localExtract input) aiVitals),
                     aiExplanation = explanation content,
                     firstAid = firstAidText content,
                     isOffline = False \<rparr>,
                 engine_calls = [spread (localExtract input) aiVitals] \<rparr>))"
  by (simp add: processEmergencyChat_def Let_def split: reply.splits)

lemma fallback_simps:
  "engine_calls (fallback l calls) = calls @ [l]"
  "vitals (returned (fallback l calls)) = l"
  "triage (returned (fallback l calls)) = calculate l"
  "isOffline (returned (fallback l calls)) = True"
  by (simp_all add: fallback_def Let_def)

subsection \<open>C3: the engine calls of a run\<close>

text \<open>
  C3 as stated: the engine is invoked exactly once in every run, and the outcome
  of the explanation call never changes which vitals the returned priority was
  computed from. Both fail when the enrichment call succeeds and the explanation
  call fails: the engine has run on the merged vitals inside the \<^verbatim>\<open>try\<close>
  block, the \<^verbatim>\<open>catch\<close> block runs it again on the local vitals and returns
  that second result. With an enrichment reply of \<open>spo2 = 85\<close> for a text
  without vitals, the returned priority is STABLE when the explanation call
  fails and CRITICAL when it succeeds.
\<close>

theorem explanation_failure_returns_local_triage:
  "length (engine_calls (processEmergencyChat
      \<lparr> extractCall = always (Replies (no_vitals\<lparr>spo2 := Some 85\<rparr>)),
        explainCall = always Fails \<rparr>
      ''I feel a bit off'' en)) = 2 \<and>
   priority (triage (returned (processEmergencyChat
      \<lparr> extractCall = always (Replies (no_vitals\<lparr>spo2 := Some 85\<rparr>)),
        explainCall = always Fails \<rparr>
      ''I feel a bit off'' en))) = STABLE \<and>
   priority (triage (returned (processEmergencyChat
      \<lparr> extractCall = always (Replies (no_vitals\<lparr>spo2 := Some 85\<rparr>)),
        explainCall = always (Replies \<lparr> explanation = Some ''Stay calm.'',
                                           firstAidText = Some ''Call for help.'' \<rparr>) \<rparr>
      ''I feel a bit off'' en))) = CRITICAL"
  by (simp add: processEmergencyChat_cases fallback_simps localExtract_plain
        calculate_alert_only calculate_alert_spo2_85)

text \<open>
  C3 (amended): a run calls the engine once, on the local vitals, when the
  enrichment call fails; once, on the merged vitals, when both calls succeed;
  and twice, on the merged and then on the local vitals, when the enrichment
  call succeeds and the explanation call fails, the returned triage being the
  one of the local vitals. In every run the returned triage is the engine's
  result on the returned vitals: the reply of the explanation call is never an
  input of the engine.
\<close>

theorem supervisor_engine_calls:
  "(extractCall ai (extract_prompt input) = Fails \<longrightarrow>
      engine_calls (processEmergencyChat ai input lang) = [localExtract input] \<and>
      triage (returned (processEmergencyChat ai input lang)) = calculate (localExtract input) \<and>
      isOffline (returned (processEmergencyChat ai input lang))) \<and>
   (extractCall ai (extract_prompt input) = Replies aiVitals \<and>
    explainCall ai
       (explain_prompt (calculate (spread (localExtract input) aiVitals)) input lang) =
      Replies content \<longrightarrow>
      engine_calls (processEmergencyChat ai input lang) =
        [spread (localExtract input) aiVitals] \<and>
      triage (returned (processEmergencyChat ai input lang)) =
        calculate (spread (localExtract input) aiVitals) \<and>
      \<not> isOffline (returned (processEmergencyChat ai input lang))) \<and>
   (extractCall ai (extract_prompt input) = Replies aiVitals \<and>
    explainCall ai
       (explain_prompt (calculate (spread (localExtract input) aiVitals)) input lang) =
      Fails \<longrightarrow>
      engine_calls (processEmergencyChat ai input lang) =
        [spread (localExtract input) aiVitals, localExtract input] \<and>
      triage (returned (processEmergencyChat ai input lang)) = calculate (localExtract input) \<and>
      isOffline (returned (processEmergencyChat ai input lang))) \<and>
   triage (returned (processEmergencyChat ai input lang)) =
     calculate (vitals (returned (processEmergencyChat ai input lang)))"
  by (simp add: processEmergencyChat_cases fallback_simps split: reply.splits)

theorem supervisor_engine_calls_witness:
  "engine_calls (processEmergencyChat
      \<lparr> extractCall = always Fails, explainCall = always Fails \<rparr>
      ''I feel a bit off'' en) = [localExtract ''I feel a bit off''] \<and>
   engine_calls (processEmergencyChat
      \<lparr> extractCall = always (Replies (no_vitals\<lparr>spo2 := Some 85\<rparr>)),
        explainCall = always (Replies \<lparr> explanation = Some ''Stay calm.'',
                                           firstAidText = Some ''Call for help.'' \<rparr>) \<rparr>
      ''I feel a bit off'' en) =
     [spread (localExtract ''I feel a bit off'') (no_vitals\<lparr>spo2 := Some 85\<rparr>)] \<and>
   engine_calls (processEmergencyChat
      \<lparr> extractCall = always (Replies (no_vitals\<lparr>spo2 := Some 85\<rparr>)),
        explainCall = always Fails \<rparr>
      ''I feel a bit off'' en) =
     [spread (localExtract ''I feel a bit off'') (no_vitals\<lparr>spo2 := Some 85\<rparr>),
      localExtract ''I feel a bit off'']"
  using
    supervisor_engine_calls [of
      "\<lparr> extractCall = always Fails, explainCall = always Fails \<rparr>"
      "''I feel a bit off''" en no_vitals "\<lparr> explanation = None, firstAidText = None \<rparr>"]
    supervisor_engine_calls [of
      "\<lparr> extractCall = always (Replies (no_vitals\<lparr>spo2 := Some 85\<rparr>)),
         explainCall = always (Replies \<lparr> explanation = Some ''Stay calm.'',
                                            firstAidText = Some ''Call for help.'' \<rparr>) \<rparr>"
      "''I feel a bit off''" en "no_vitals\<lparr>spo2 := Some 85\<rparr>"
      "\<lparr> explanation = Some ''Stay calm.'', firstAidText = Some ''Call for help.'' \<rparr>"]
    supervisor_engine_calls [of
      "\<lparr> extractCall = always (Replies (no_vitals\<lparr>spo2 := Some 85\<rparr>)),
         explainCall = always Fails \<rparr>"
      "''I feel a bit off''" en "no_vitals\<lparr>spo2 := Some 85\<rparr>"
      "\<lparr> explanation = None, firstAidText = None \<rparr>"]
  by simp

subsection \<open>C4: the text of scenario C\<close>

text \<open>
  C4 as stated: on the text \<open>temperature 39, age 65\<close> extraction followed by
  decision fires the temperature rule and the age rule, for a score of 2. The
  local parser has no pattern for the temperature or the age: the record it
  returns holds neither, and the score is 0.
\<close>

theorem scenario_C_local_score_is_0:
  "temperature (localExtract ''temperature 39, age 65'') = None \<and>
   age (localExtract ''temperature 39, age 65'') = None \<and>
   score (calculate (localExtract ''temperature 39, age 65'')) = 0"
  by (simp add: localExtract_scenario_C calculate_alert_only) (simp add: no_vitals_def)

text \<open>
  C4 (amended): the local parser never sets the temperature or the age. On the
  text \<open>temperature 39, age 65\<close> it returns the record holding only
  \<open>consciousness = alert\<close>, on which the engine fires no rule: score 0, priority
  STABLE. The temperature rule and the age rule fire, for a score of 2 and
  priority STABLE, on a record that holds the temperature 39 and the age 65, as
  the run does in which the enrichment call supplies the two fields.
\<close>

theorem scenario_C_pipeline:
  "temperature (localExtract input) = None \<and> age (localExtract input) = None \<and>
   localExtract ''temperature 39, age 65'' = no_vitals\<lparr>consciousness := Some alert\<rparr> \<and>
   score (calculate (localExtract ''temperature 39, age 65'')) = 0 \<and>
   priority (calculate (localExtract ''temperature 39, age 65'')) = STABLE \<and>
   reasons (calculate (localExtract ''temperature 39, age 65'')) = [] \<and>
   score (calculate
      (no_vitals\<lparr>temperature := Some 39, age := Some 65, consciousness := Some alert\<rparr>)) = 2 \<and>
   priority (calculate
      (no_vitals\<lparr>temperature := Some 39, age := Some 65, consciousness := Some alert\<rparr>)) =
     STABLE \<and>
   reasons (calculate
      (no_vitals\<lparr>temperature := Some 39, age := Some 65, consciousness := Some alert\<rparr>)) =
     [''Body temperature elevated above 38'' @ degree_sign @ ''C'',
      ''Patient age over 60 years''] \<and>
   score (triage (returned (processEmergencyChat
      \<lparr> extractCall = always (Replies (no_vitals\<lparr>temperature := Some 39, age := Some 65\<rparr>)),
        explainCall = always (Replies \<lparr> explanation = Some ''Stay calm.'',
                                           firstAidText = Some ''Rest and drink water.'' \<rparr>) \<rparr>
      ''temperature 39, age 65'' en))) = 2"
proof -
  have never: "temperature (localExtract input) = None \<and> age (localExtract input) = None"
    by (simp add: localExtract_def Let_def)
  have enriched: "score (triage (returned (processEmergencyChat
      \<lparr> extractCall = always (Replies (no_vitals\<lparr>temperature := Some 39, age := Some 65\<rparr>)),
        explainCall = always (Replies \<lparr> explanation = Some ''Stay calm.'',
                                           firstAidText = Some ''Rest and drink water.'' \<rparr>) \<rparr>
      ''temperature 39, age 65'' en))) = 2"
    by (simp add: processEmergencyChat_cases localExtract_scenario_C
          spread_alert_fever_and_age calculate_fever_and_age)
  show ?thesis
    using never enriched calculate_fever_and_age
    by (simp add: localExtract_scenario_C calculate_alert_only)
qed

subsection \<open>C5: the merge of local and remote vitals\<close>

text \<open>
  C5: in the merged record every field that the remote record holds is the
  remote value, every field that it lacks is the local value; merging with the
  record without fields gives the local record back, and a run whose enrichment
  call fails returns the local record.
\<close>

theorem spread_field_wise_merge:
  "(age r = Some a \<longrightarrow> age (spread l r) = Some a) \<and>
   (age r = None \<longrightarrow> age (spread l r) = age l) \<and>
   (systolic_bp r = Some b \<longrightarrow> systolic_bp (spread l r) = Some b) \<and>
   (systolic_bp r = None \<longrightarrow> systolic_bp (spread l r) = systolic_bp l) \<and>
   (heart_rate r = Some h \<longrightarrow> heart_rate (spread l r) = Some h) \<and>
   (heart_rate r = None \<longrightarrow> heart_rate (spread l r) = heart_rate l) \<and>
   (spo2 r = Some s \<longrightarrow> spo2 (spread l r) = Some s) \<and>
   (spo2 r = None \<longrightarrow> spo2 (spread l r) = spo2 l) \<and>
   (temperature r = Some t \<longrightarrow> temperature (spread l r) = Some t) \<and>
   (temperature r = None \<longrightarrow> temperature (spread l r) = temperature l) \<and>
   (consciousness r = Some c \<longrightarrow> consciousness (spread l r) = Some c) \<and>
   (consciousness r = None \<longrightarrow> consciousness (spread l r) = consciousness l) \<and>
   (doctor_assessment r = Some d \<longrightarrow> doctor_assessment (spread l r) = Some d) \<and>
   (doctor_assessment r = None \<longrightarrow> doctor_assessment (spread l r) = doctor_assessment l) \<and>
   spread l no_vitals = l \<and>
   (extractCall ai (extract_prompt input) = Fails \<longrightarrow>
      vitals (returned (processEmergencyChat ai input lang)) = localExtract input)"
proof -
  have fields: "spread_field x None = x" "spread_field x (Some y) = Some y" for x :: "'a option" and y :: 'a
    by (simp_all add: spread_field_def)
  have unit: "spread l no_vitals = l"
    by (simp add: spread_def no_vitals_def fields)
  have failed: "extractCall ai (extract_prompt input) = Fails \<Longrightarrow>
      vitals (returned (processEmergencyChat ai input lang)) = localExtract input"
    by (simp add: processEmergencyChat_cases fallback_simps)
  show ?thesis
    using unit failed by (simp add: spread_def fields)
qed

theorem spread_field_wise_merge_witness:
  "spo2 (spread (no_vitals\<lparr>spo2 := Some 95\<rparr>) (no_vitals\<lparr>spo2 := Some 88\<rparr>)) = Some 88 \<and>
   spo2 (spread (no_vitals\<lparr>spo2 := Some 95\<rparr>) (no_vitals\<lparr>heart_rate := Some 70\<rparr>)) = Some 95 \<and>
   spread (no_vitals\<lparr>spo2 := Some 95\<rparr>) no_vitals = no_vitals\<lparr>spo2 := Some 95\<rparr> \<and>
   vitals (returned (processEmergencyChat
      \<lparr> extractCall = always Fails, explainCall = always Fails \<rparr>
      ''spo2 95'' en)) = localExtract ''spo2 95''"
proof -
  have present: "spo2 (no_vitals\<lparr>spo2 := Some 88\<rparr>) = Some 88"
    by simp
  have absent: "spo2 (no_vitals\<lparr>heart_rate := Some 70\<rparr>) = None"
    by (simp add: no_vitals_def)
  have local: "spo2 (no_vitals\<lparr>spo2 := Some 95\<rparr>) = Some 95"
    by simp
  have failing: "extractCall \<lparr> extractCall = always Fails, explainCall = always Fails \<rparr>
      (extract_prompt ''spo2 95'') = Fails"
    by simp
  from spread_field_wise_merge [of "no_vitals\<lparr>spo2 := Some 88\<rparr>" _ "no_vitals\<lparr>spo2 := Some 95\<rparr>"
      _ _ 88 _ _ _
      "\<lparr> extractCall = always Fails, explainCall = always Fails \<rparr>" "''spo2 95''" en]
    present failing
  have override: "spo2 (spread (no_vitals\<lparr>spo2 := Some 95\<rparr>) (no_vitals\<lparr>spo2 := Some 88\<rparr>)) = Some 88"
    and unit: "spread (no_vitals\<lparr>spo2 := Some 95\<rparr>) no_vitals = no_vitals\<lparr>spo2 := Some 95\<rparr>"
    and offline: "vitals (returned (processEmergencyChat
      \<lparr> extractCall = always Fails, explainCall = always Fails \<rparr>
      ''spo2 95'' en)) = localExtract ''spo2 95''"
    by blast+
  from spread_field_wise_merge [of "no_vitals\<lparr>heart_rate := Some 70\<rparr>" _
      "no_vitals\<lparr>spo2 := Some 95\<rparr>"] absent local
  have keep: "spo2 (spread (no_vitals\<lparr>spo2 := Some 95\<rparr>) (no_vitals\<lparr>heart_rate := Some 70\<rparr>)) =
      Some 95"
    by metis
  show ?thesis
    using override keep unit offline by simp
qed

end
